theory Spec2Isabelle
  imports Main "HOL-Library.Word" "HOL-Library.Sublist" "HOL-Library.Signed_Division"
begin

section \<open>JavaScript values used by App.tsx\<close>

text \<open>
  A JavaScript string is a sequence of 16-bit code units. String constants of the source
  are written with \<open>js\<close>; every character of the source's constants lies in Latin-1, so
  the byte of the Isabelle character is the code unit (\<open>CHR 0xE6\<close> is U+00E6).
  A value that may be \<open>null\<close> or \<open>undefined\<close> is an \<open>option\<close>.
\<close>

type_synonym code_unit = "16 word"
type_synonym jsstring = "code_unit list"

definition js :: "string \<Rightarrow> jsstring" where
  "js s = map (\<lambda>c. of_nat (of_char c)) s"

text \<open>Truthiness of a string-or-null value: \<open>null\<close>, \<open>undefined\<close> and \<open>""\<close> are falsy.\<close>

fun truthy :: "jsstring option \<Rightarrow> bool" where
  "truthy None = False"
| "truthy (Some s) = (s \<noteq> [])"

text \<open>\<open>String.prototype.startsWith\<close> and \<open>String.prototype.includes\<close>.\<close>

definition startsWith :: "jsstring \<Rightarrow> jsstring \<Rightarrow> bool" where
  "startsWith s p = prefix p s"

fun js_includes :: "jsstring \<Rightarrow> jsstring \<Rightarrow> bool" where
  "js_includes [] t = (t = [])"
| "js_includes (x # xs) t = (prefix t (x # xs) \<or> js_includes xs t)"

text \<open>\<open>String.prototype.split\<close> with a one-unit separator.\<close>

fun split :: "jsstring \<Rightarrow> code_unit \<Rightarrow> jsstring list" where
  "split [] c = [[]]"
| "split (x # xs) c =
     (if x = c then [] # split xs c
      else (case split xs c of [] \<Rightarrow> [[x]] | y # ys \<Rightarrow> (x # y) # ys))"

text \<open>
  Array indexing \<open>xs[i]\<close>: \<open>undefined\<close> outside the array.
  \<open>Array.prototype.indexOf\<close>: the first index holding the value, \<open>-1\<close> when there is none.
\<close>

definition at :: "'a list \<Rightarrow> int \<Rightarrow> 'a option" where
  "at xs i = (if 0 \<le> i \<and> i < int (length xs) then Some (xs ! nat i) else None)"

fun indexOf :: "'a list \<Rightarrow> 'a \<Rightarrow> int" where
  "indexOf [] x = - 1"
| "indexOf (y # ys) x =
     (if y = x then 0 else (let i = indexOf ys x in if i < 0 then - 1 else i + 1))"

text \<open>A template literal prints an undefined value as the text \<open>undefined\<close>.\<close>

fun template :: "jsstring option \<Rightarrow> jsstring" where
  "template None = js ''undefined''"
| "template (Some s) = s"

section \<open>Constants of the source\<close>

definition loadingMessages :: "jsstring list" where
  "loadingMessages =
    [js ''Kontakter arkitekterne...'',
     js ''Bestiller rutsjebaner i alle regnbuens farver...'',
     js ''Puster badedyr op...'',
     js ''Tegner byggeplaner...'',
     js (''H'' @ [CHR 0xE6] @ ''lder vand i swimmingpoolen...''),
     js (''S'' @ [CHR 0xE6] @ ''tter prikken over i'' @ [CHR 0x27] @ ''et...'')]"

definition invalidFileTypeMessage :: jsstring where
  "invalidFileTypeMessage = js (''V'' @ [CHR 0xE6] @ ''lg venligst en gyldig billedfil.'')"

definition noImageSelectedMessage :: jsstring where
  "noImageSelectedMessage = js (''Upload venligst et billede f'' @ [CHR 0xF8] @ ''rst.'')"

definition unknownResultMessage :: jsstring where
  "unknownResultMessage =
     js ''Videogenerering mislykkedes, eller der blev ikke returneret nogen video.''"

definition unknownErrorMessage :: jsstring where
  "unknownErrorMessage = js ''En ukendt fejl opstod.''"

definition entityNotFound :: jsstring where
  "entityNotFound = js ''Requested entity was not found.''"

definition invalidKeyMessage :: jsstring where
  "invalidKeyMessage =
     js (''Din API n'' @ [CHR 0xF8] @ ''gle er muligvis ugyldig. Tjek dine environment variabler.'')"

definition prompt_text :: jsstring where
  "prompt_text =
     js (''Animer et feriecenter, der bliver bygget oven p'' @ [CHR 0xE5] @ '' dette hus. Tilf''
         @ [CHR 0xF8] @ ''j farverige rutsjebaner, der kommer ud af vinduerne, en stor ''
         @ ''swimmingpool i forhaven og en festlig, glad atmosf'' @ [CHR 0xE6] @ ''re.'')"

section \<open>Data\<close>

text \<open>A browser \<open>File\<close>: its declared media type and its bytes. A \<open>Blob\<close> is its bytes.\<close>

record File =
  type :: jsstring
  bytes :: "8 word list"

type_synonym Blob = "8 word list"

text \<open>A thrown value, read through its \<open>message\<close> property (absent: \<open>None\<close>).\<close>

datatype js_error = Error (message: "jsstring option")

text \<open>The argument of \<open>ai.models.generateVideos\<close>.\<close>

record image_part =
  imageBytes :: "jsstring option"
  mimeType :: jsstring

record video_config =
  numberOfVideos :: nat
  resolution :: jsstring
  aspectRatio :: jsstring

record request =
  model :: jsstring
  prompt :: jsstring
  image_input :: image_part
  config :: video_config

text \<open>
  The operation object of the provider: its name (the handle), the \<open>done\<close> flag and the
  optional chain \<open>response?.generatedVideos?.[0]?.video?.uri\<close>.
\<close>

record video =
  uri :: "jsstring option"

record generated_video =
  video :: "video option"

record videos_response =
  generatedVideos :: "generated_video list option"

record operation =
  name :: jsstring
  is_done :: bool
  response :: "videos_response option"

fun result_uri :: "operation \<Rightarrow> jsstring option" where
  "result_uri operation =
     (case response operation of None \<Rightarrow> None
      | Some r \<Rightarrow>
        (case generatedVideos r of None \<Rightarrow> None
         | Some [] \<Rightarrow> None
         | Some (g # _) \<Rightarrow> (case video g of None \<Rightarrow> None | Some v \<Rightarrow> uri v)))"

text \<open>The \<open>Response\<close> of \<open>fetch\<close>; reading its body with \<open>blob()\<close> may reject.\<close>

record fetch_response =
  ok :: bool
  statusText :: jsstring
  body :: "js_error + Blob"

section \<open>The browser and the provider\<close>

text \<open>
  What the program cannot decide is a parameter: the access credential, whether the
  client constructor throws, what the file reader delivers (\<open>None\<close>: \<open>reader.result\<close> is
  \<open>null\<close>), the provider's answer to the start call and to the \<open>n\<close>-th poll of an attempt,
  the answer of \<open>fetch\<close>, and the identifier the browser puts in the \<open>n\<close>-th object URL.
\<close>

record env =
  API_KEY :: "jsstring option"
  newGoogleGenAI :: "js_error option"
  readAsDataURL :: "File \<Rightarrow> jsstring option"
  generateVideos :: "request \<Rightarrow> js_error + operation"
  getVideosOperation :: "nat \<Rightarrow> operation \<Rightarrow> js_error + operation"
  fetch :: "jsstring \<Rightarrow> js_error + fetch_response"
  blobId :: "nat \<Rightarrow> jsstring"

text \<open>
  What the program does to the outside is recorded: the network calls and timer waits in
  the order they are issued, and the browser's store of object URLs. An entry leaves the
  store only through \<open>URL.revokeObjectURL\<close>, which App.tsx never calls.
\<close>

datatype event =
    GenerateVideos request
  | SetTimeout nat
  | GetVideosOperation operation
  | Fetch jsstring

datatype url_object = FileObject File | BlobObject Blob

record world =
  trace :: "event list"
  objectURLs :: "(jsstring \<times> url_object) list"

definition emit :: "event list \<Rightarrow> world \<Rightarrow> world" where
  "emit es w = w\<lparr>trace := trace w @ es\<rparr>"

definition createObjectURL :: "env \<Rightarrow> url_object \<Rightarrow> world \<Rightarrow> jsstring \<times> world" where
  "createObjectURL e obj w =
     (let url = js ''blob:'' @ blobId e (length (objectURLs w))
      in (url, w\<lparr>objectURLs := objectURLs w @ [(url, obj)]\<rparr>))"

section \<open>The component state\<close>

text \<open>
  One field for each \<open>useState\<close> of \<open>App\<close>, and the value of the file input behind
  \<open>fileInputRef\<close> (\<open>None\<close>: \<open>fileInputRef.current\<close> is \<open>null\<close>, the input is not mounted).
  \<open>loadingMessage\<close> holds the result of an array read, so it is an option.
\<close>

record app_state =
  isKeySelected :: bool
  imageFile :: "File option"
  imagePreview :: "jsstring option"
  isLoading :: bool
  loadingMessage :: "jsstring option"
  error :: "jsstring option"
  videoUrl :: "jsstring option"
  fileInputRef :: "jsstring option"

definition initial :: app_state where
  "initial =
     \<lparr>isKeySelected = True, imageFile = None, imagePreview = None, isLoading = False,
      loadingMessage = at loadingMessages 0, error = None, videoUrl = None,
      fileInputRef = Some []\<rparr>"

definition initial_world :: world where
  "initial_world = \<lparr>trace = [], objectURLs = []\<rparr>"

subsection \<open>The loading-message interval (lines 49-62)\<close>

text \<open>
  The updater passed to \<open>setLoadingMessage\<close>. JavaScript's \<open>%\<close> truncates toward zero, as
  \<open>smod\<close> does; a previous message that is not in the list has index \<open>-1\<close>.
\<close>

definition nextLoadingMessage :: "jsstring option \<Rightarrow> jsstring option" where
  "nextLoadingMessage prev =
     (let currentIndex = (case prev of None \<Rightarrow> - 1 | Some m \<Rightarrow> indexOf loadingMessages m);
          nextIndex = (currentIndex + 1) smod int (length loadingMessages)
      in at loadingMessages nextIndex)"

text \<open>The interval exists only while \<open>isLoading\<close> holds.\<close>

definition tick :: "app_state \<Rightarrow> app_state" where
  "tick s = (if isLoading s then s\<lparr>loadingMessage := nextLoadingMessage (loadingMessage s)\<rparr>
             else s)"

subsection \<open>handleFileChange (lines 66-79)\<close>

definition handleFileChange ::
  "env \<Rightarrow> File option \<Rightarrow> app_state \<Rightarrow> world \<Rightarrow> app_state \<times> world" where
  "handleFileChange e file s w =
     (case file of
        None \<Rightarrow> (s, w)
      | Some f \<Rightarrow>
          if startsWith (type f) (js ''image/'') then
            (let (url, w') = createObjectURL e (FileObject f) w
             in (s\<lparr>imageFile := Some f, imagePreview := Some url, error := None\<rparr>, w'))
          else
            (s\<lparr>error := Some invalidFileTypeMessage, imageFile := None, imagePreview := None\<rparr>,
             w))"

subsection \<open>resetState (lines 142-151)\<close>

definition resetState :: "app_state \<Rightarrow> app_state" where
  "resetState s =
     (let s' = s\<lparr>imageFile := None, imagePreview := None, isLoading := False, error := None,
                 videoUrl := None\<rparr>
      in (case fileInputRef s' of None \<Rightarrow> s' | Some _ \<Rightarrow> s'\<lparr>fileInputRef := Some []\<rparr>))"

subsection \<open>handleGenerateVideo (lines 81-140)\<close>

text \<open>
  \<open>fileToGenerativePart\<close> (lines 13-22). The promise resolves from \<open>onloadend\<close> with the
  text after the first comma of the data URL. When \<open>reader.result\<close> is \<open>null\<close> the handler
  throws inside the callback and the promise never settles: the result is \<open>None\<close>.
\<close>

definition fileToGenerativePart :: "env \<Rightarrow> File \<Rightarrow> image_part option" where
  "fileToGenerativePart e file =
     (case readAsDataURL e file of
        None \<Rightarrow> None
      | Some result \<Rightarrow>
          Some \<lparr>imageBytes = at (split result (of_nat (of_char CHR '',''))) 1,
                mimeType = type file\<rparr>)"

definition make_request :: "image_part \<Rightarrow> request" where
  "make_request imagePart =
     \<lparr>model = js ''veo-3.1-fast-generate-preview'',
      prompt = prompt_text,
      image_input = \<lparr>imageBytes = imageBytes imagePart, mimeType = mimeType imagePart\<rparr>,
      config = \<lparr>numberOfVideos = 1, resolution = js ''720p'', aspectRatio = js ''16:9''\<rparr>\<rparr>"

text \<open>
  The polling loop (lines 111-114): while the operation is not done, wait 10000 ms and
  query again with the operation last received. \<open>n\<close> counts the polls made so far.
  The loop has no bound; \<open>None\<close> is the run that never leaves it.
\<close>

partial_function (option) poll ::
  "env \<Rightarrow> nat \<Rightarrow> operation \<Rightarrow> world \<Rightarrow> ((js_error + operation) \<times> world) option" where
  "poll e n operation w =
     (if is_done operation then Some (Inr operation, w)
      else
        (case getVideosOperation e n operation of
           Inl err \<Rightarrow> Some (Inl err, emit [SetTimeout 10000, GetVideosOperation operation] w)
         | Inr operation' \<Rightarrow>
             poll e (Suc n) operation' (emit [SetTimeout 10000, GetVideosOperation operation] w)))"

declare poll.simps [code]

text \<open>Lines 116-129: fetch the asset of a finished operation, or throw.\<close>

definition download :: "env \<Rightarrow> operation \<Rightarrow> world \<Rightarrow> (js_error + jsstring) \<times> world" where
  "download e operation w =
     (if truthy (result_uri operation) then
        (let downloadLink = template (result_uri operation);
             target = downloadLink @ js ''&key='' @ template (API_KEY e);
             w1 = emit [Fetch target] w
         in (case fetch e target of
               Inl err \<Rightarrow> (Inl err, w1)
             | Inr videoResponse \<Rightarrow>
                 if \<not> ok videoResponse then
                   (Inl (Error (Some (js ''Failed to download video: ''
                                      @ statusText videoResponse))), w1)
                 else
                   (case body videoResponse of
                      Inl err \<Rightarrow> (Inl err, w1)
                    | Inr videoBlob \<Rightarrow>
                        (let (url, w2) = createObjectURL e (BlobObject videoBlob) w1
                         in (Inr url, w2)))))
      else (Inl (Error (Some unknownResultMessage)), w))"

text \<open>
  Lines 93-114: construct the client, encode the image, start the operation and poll it.
  The result is a thrown value (\<open>Inl\<close>) or the operation that left the loop (\<open>Inr\<close>), or
  \<open>None\<close> when this part never finishes.
\<close>

definition start_and_poll ::
  "env \<Rightarrow> File \<Rightarrow> world \<Rightarrow> ((js_error + operation) \<times> world) option" where
  "start_and_poll e file w =
     (case newGoogleGenAI e of
        Some err \<Rightarrow> Some (Inl err, w)
      | None \<Rightarrow>
          (case fileToGenerativePart e file of
             None \<Rightarrow> None
           | Some imagePart \<Rightarrow>
               (case generateVideos e (make_request imagePart) of
                  Inl err \<Rightarrow> Some (Inl err, emit [GenerateVideos (make_request imagePart)] w)
                | Inr operation \<Rightarrow>
                    poll e 0 operation (emit [GenerateVideos (make_request imagePart)] w))))"

text \<open>
  The body of the \<open>try\<close> (lines 93-129): a thrown value (\<open>Inl\<close>) or the object URL of the
  video (\<open>Inr\<close>), or \<open>None\<close> when it never finishes.
\<close>

definition attempt ::
  "env \<Rightarrow> File \<Rightarrow> world \<Rightarrow> ((js_error + jsstring) \<times> world) option" where
  "attempt e file w =
     (case start_and_poll e file w of
        None \<Rightarrow> None
      | Some (Inl err, w') \<Rightarrow> Some (Inl err, w')
      | Some (Inr operation, w') \<Rightarrow> Some (download e operation w'))"

text \<open>Lines 87-90: the state updates before the first \<open>await\<close>.\<close>

definition generate_start :: "app_state \<Rightarrow> app_state" where
  "generate_start s =
     s\<lparr>isLoading := True, videoUrl := None, error := None,
       loadingMessage := at loadingMessages 0\<rparr>"

text \<open>Lines 132-135: the message surfaced for a caught value.\<close>

definition errorMessage :: "js_error \<Rightarrow> jsstring" where
  "errorMessage err =
     (let errorMessage = (if truthy (message err) then template (message err)
                          else unknownErrorMessage)
      in if js_includes errorMessage entityNotFound then invalidKeyMessage else errorMessage)"

text \<open>
  The state updates once the \<open>try\<close> has an outcome (lines 126, 136, 138). They apply to
  the state of that moment: ticks and other handlers may have run since the start.
\<close>

definition generate_finish :: "js_error + jsstring \<Rightarrow> app_state \<Rightarrow> app_state" where
  "generate_finish outcome s =
     (case outcome of
        Inr url \<Rightarrow> s\<lparr>videoUrl := Some url, isLoading := False\<rparr>
      | Inl err \<Rightarrow> s\<lparr>error := Some (errorMessage err), isLoading := False\<rparr>)"

text \<open>The whole handler, run with no other event in between.\<close>

definition handleGenerateVideo ::
  "env \<Rightarrow> app_state \<Rightarrow> world \<Rightarrow> (app_state \<times> world) option" where
  "handleGenerateVideo e s w =
     (case imageFile s of
        None \<Rightarrow> Some (s\<lparr>error := Some noImageSelectedMessage\<rparr>, w)
      | Some file \<Rightarrow>
          (case attempt e file w of
             None \<Rightarrow> None
           | Some (outcome, w') \<Rightarrow> Some (generate_finish outcome (generate_start s), w')))"

subsection \<open>What is rendered (lines 166-226)\<close>

datatype view =
    Loader "jsstring option"
  | VideoPlayer jsstring
  | UploadForm (banner: "jsstring option") (preview: "jsstring option")

definition render :: "app_state \<Rightarrow> view" where
  "render s =
     (if isLoading s then Loader (loadingMessage s)
      else if truthy (videoUrl s) then VideoPlayer (template (videoUrl s))
      else UploadForm (if truthy (error s) then error s else None)
                      (if truthy (imagePreview s) then imagePreview s else None))"

subsection \<open>The events of the component\<close>

text \<open>
  The handlers as the markup wires them: the file input's \<open>onChange\<close>, the two buttons'
  \<open>onClick\<close>, and the interval. \<open>resetState\<close> touches nothing outside the component.
\<close>

datatype action = SelectFile "File option" | Generate | Reset | Tick

fun step :: "env \<Rightarrow> action \<Rightarrow> app_state \<times> world \<Rightarrow> (app_state \<times> world) option" where
  "step e (SelectFile file) (s, w) = Some (handleFileChange e file s w)"
| "step e Generate (s, w) = handleGenerateVideo e s w"
| "step e Reset (s, w) = Some (resetState s, w)"
| "step e Tick (s, w) = Some (tick s, w)"

fun run :: "env \<Rightarrow> action list \<Rightarrow> app_state \<times> world \<Rightarrow> (app_state \<times> world) option" where
  "run e [] c = Some c"
| "run e (a # as) c = (case step e a c of None \<Rightarrow> None | Some c' \<Rightarrow> run e as c')"

section \<open>A scripted provider and sample inputs\<close>

text \<open>
  A provider that answers the start call with \<open>start\<close>, the \<open>n\<close>-th poll with the \<open>n\<close>-th
  entry of \<open>polls\<close>, and every fetch with \<open>fetched\<close>.
\<close>

definition scripted ::
  "js_error + operation \<Rightarrow> (js_error + operation) list \<Rightarrow> js_error + fetch_response \<Rightarrow> env" where
  "scripted start polls fetched =
     \<lparr>API_KEY = Some (js ''KEY''),
      newGoogleGenAI = None,
      readAsDataURL = (\<lambda>f. Some (js ''data:'' @ type f @ js '';base64,AAEC'')),
      generateVideos = (\<lambda>_. start),
      getVideosOperation =
        (\<lambda>n _. if n < length polls then polls ! n
                else Inl (Error (Some (js ''script exhausted'')))),
      fetch = (\<lambda>_. fetched),
      blobId = (\<lambda>n. replicate (Suc n) (of_nat (of_char CHR ''x'')))\<rparr>"

definition png_file :: File where
  "png_file = \<lparr>type = js ''image/png'', bytes = [0, 1, 2]\<rparr>"

definition text_file :: File where
  "text_file = \<lparr>type = js ''text/plain'', bytes = [104, 105]\<rparr>"

definition pending :: operation where
  "pending = \<lparr>name = js ''operations/1'', is_done = False, response = None\<rparr>"

definition finished :: "jsstring option \<Rightarrow> operation" where
  "finished u =
     \<lparr>name = js ''operations/1'', is_done = True,
      response = Some \<lparr>generatedVideos = Some [\<lparr>video = Some \<lparr>uri = u\<rparr>\<rparr>]\<rparr>\<rparr>"

definition fetched_ok :: "js_error + fetch_response" where
  "fetched_ok = Inr \<lparr>ok = True, statusText = js ''OK'', body = Inr [9, 9]\<rparr>"

definition fetched_forbidden :: "js_error + fetch_response" where
  "fetched_forbidden = Inr \<lparr>ok = False, statusText = js ''Forbidden'', body = Inr []\<rparr>"

definition video_link :: jsstring where
  "video_link = js ''https://example.test/v.mp4?alt=media''"

text \<open>
  Two providers for the polling scenario. With \<open>two_polls\<close> the start call and the first
  poll answer with an operation that is not done and the second poll with the finished
  one; \<open>three_polls\<close> needs one more poll.
\<close>

definition two_polls :: env where
  "two_polls =
     scripted (Inr pending) [Inr pending, Inr (finished (Some video_link))] fetched_ok"

definition three_polls :: env where
  "three_polls =
     scripted (Inr pending) [Inr pending, Inr pending, Inr (finished (Some video_link))]
       fetched_ok"

text \<open>The state after a valid image has been chosen in the initial state.\<close>

definition selected :: "app_state \<times> world" where
  "selected = handleFileChange three_polls (Some png_file) initial initial_world"

text \<open>Providers for the failing runs, and the values the sample runs pass through.\<close>

definition not_found_error :: js_error where
  "not_found_error = Error (Some (js ''404 Requested entity was not found. NOT_FOUND''))"

definition quota_error :: js_error where
  "quota_error = Error (Some (js ''Quota exceeded.''))"

definition start_fails :: "js_error \<Rightarrow> env" where
  "start_fails err = scripted (Inl err) [] fetched_ok"

definition poll_fails :: "js_error \<Rightarrow> env" where
  "poll_fails err = scripted (Inr pending) [Inr pending, Inl err] fetched_ok"

definition no_uri :: env where
  "no_uri = scripted (Inr pending) [Inr pending, Inr (finished None)] fetched_ok"

definition download_forbidden :: env where
  "download_forbidden =
     scripted (Inr pending) [Inr (finished (Some video_link))] fetched_forbidden"

definition png_part :: image_part where
  "png_part = \<lparr>imageBytes = Some (js ''AAEC''), mimeType = js ''image/png''\<rparr>"

definition response_ok :: fetch_response where
  "response_ok = \<lparr>ok = True, statusText = js ''OK'', body = Inr [9, 9]\<rparr>"


section \<open>Notions used in the statements\<close>

text \<open>The operations queried by the polls of a trace, in order.\<close>

fun polls :: "event list \<Rightarrow> operation list" where
  "polls [] = []"
| "polls (GetVideosOperation operation # es) = operation # polls es"
| "polls (_ # es) = polls es"

text \<open>The stored image file and the stored preview are both present or both absent.\<close>

definition selection_paired :: "app_state \<Rightarrow> bool" where
  "selection_paired s = ((imageFile s \<noteq> None) = (imagePreview s \<noteq> None))"




section \<open>Basic facts\<close>

lemma js_includes_sublist: "js_includes s t = sublist t s"
  by (induction s) (simp_all add: sublist_Cons_right)

lemma polls_append: "polls (xs @ ys) = polls xs @ polls ys"
  by (induction xs rule: polls.induct) simp_all

lemma emit_emit: "emit es' (emit es w) = emit (es @ es') w"
  by (simp add: emit_def)

lemma resetState_fields:
  "resetState s =
     s\<lparr>imageFile := None, imagePreview := None, isLoading := False, error := None,
       videoUrl := None, fileInputRef := map_option (\<lambda>_. []) (fileInputRef s)\<rparr>"
  by (cases "fileInputRef s") (simp_all add: resetState_def)

lemma resetState_idem: "resetState (resetState s) = resetState s"
  by (cases "fileInputRef s") (simp_all add: resetState_def)

lemma selected_file: "imageFile (fst selected) = Some png_file"
  by code_simp

subsection \<open>The polling loop\<close>

lemma poll_done: "is_done operation \<Longrightarrow> poll e n operation w = Some (Inr operation, w)"
  by (subst poll.simps) simp

lemma poll_next:
  "\<not> is_done operation \<Longrightarrow> getVideosOperation e n operation = Inr operation' \<Longrightarrow>
   poll e n operation w =
     poll e (Suc n) operation' (emit [SetTimeout 10000, GetVideosOperation operation] w)"
  by (subst poll.simps) simp

lemma poll_throw:
  "\<not> is_done operation \<Longrightarrow> getVideosOperation e n operation = Inl err \<Longrightarrow>
   poll e n operation w =
     Some (Inl err, emit [SetTimeout 10000, GetVideosOperation operation] w)"
  by (subst poll.simps) simp

text \<open>An operation that leaves the loop is done.\<close>

lemma poll_result_done:
  assumes "poll e n operation w = Some y"
  shows "case y of (Inr operation', w') \<Rightarrow> is_done operation' | (Inl err, w') \<Rightarrow> True"
  using assms
  by (rule poll.raw_induct [rotated]) (auto split: if_splits sum.splits)

lemma start_and_poll_done:
  "start_and_poll e f w = Some (Inr operation, w') \<Longrightarrow> is_done operation"
  by (auto simp: start_and_poll_def split: option.splits sum.splits dest: poll_result_done)

text \<open>
  While the answers are operations that are not done, the loop goes on: after \<open>n\<close> such
  answers it has made \<open>n\<close> polls, each after a wait and each with the operation last
  received. It returns as soon as an answer is done or a poll throws.
\<close>

lemma poll_while_pending:
  assumes "\<And>k. k < n \<Longrightarrow>
             \<not> is_done (ops k) \<and> getVideosOperation e (m + k) (ops k) = Inr (ops (Suc k))"
  shows "poll e m (ops 0) w =
         poll e (m + n) (ops n)
           (emit (concat (map (\<lambda>k. [SetTimeout 10000, GetVideosOperation (ops k)]) [0..<n])) w)"
  using assms
proof (induction n)
  case 0
  show ?case by (simp add: emit_def)
next
  case (Suc n)
  from Suc.prems [of n]
  have "\<not> is_done (ops n)" and "getVideosOperation e (m + n) (ops n) = Inr (ops (Suc n))"
    by simp_all
  from poll_next [OF this] Suc.IH Suc.prems show ?case
    by (simp add: emit_emit)
qed

lemma poll_returns:
  assumes "\<And>k. k < n \<Longrightarrow>
             \<not> is_done (ops k) \<and> getVideosOperation e (m + k) (ops k) = Inr (ops (Suc k))"
    and "is_done (ops n) \<or> (\<exists>err. getVideosOperation e (m + n) (ops n) = Inl err)"
  shows "\<exists>r. poll e m (ops 0) w = Some r"
proof (cases "is_done (ops n)")
  case True
  with poll_while_pending [OF assms(1), of n w] show ?thesis
    by (simp add: poll_done)
next
  case False
  with assms(2) obtain err where "getVideosOperation e (m + n) (ops n) = Inl err" by blast
  with False poll_while_pending [OF assms(1), of n w] show ?thesis
    by (simp add: poll_throw)
qed

subsection \<open>The surfaced message\<close>

lemma unknownErrorMessage_plain: "\<not> sublist entityNotFound unknownErrorMessage"
  unfolding js_includes_sublist [symmetric] by code_simp

lemma unknownResultMessage_plain: "\<not> sublist entityNotFound unknownResultMessage"
  unfolding js_includes_sublist [symmetric] by code_simp

lemma errorMessage_cases:
  "errorMessage err =
     (case message err of
        None \<Rightarrow> unknownErrorMessage
      | Some m \<Rightarrow> if m = [] then unknownErrorMessage
                  else if sublist entityNotFound m then invalidKeyMessage else m)"
  by (cases "message err")
     (simp_all add: errorMessage_def js_includes_sublist unknownErrorMessage_plain)

subsection \<open>The pairing of file and preview\<close>

lemma handleFileChange_paired:
  "selection_paired s \<Longrightarrow> selection_paired (fst (handleFileChange e fl s w))"
  by (simp add: handleFileChange_def selection_paired_def createObjectURL_def Let_def
        split: option.split)

lemma generate_start_paired: "selection_paired (generate_start s) = selection_paired s"
  by (simp add: selection_paired_def generate_start_def)

lemma generate_finish_paired: "selection_paired (generate_finish outcome s) = selection_paired s"
  by (simp add: selection_paired_def generate_finish_def split: sum.split)

lemma handleGenerateVideo_paired:
  assumes "selection_paired s" and "handleGenerateVideo e s w = Some (s', w')"
  shows "selection_paired s'"
proof (cases "imageFile s")
  case None
  with assms show ?thesis
    by (auto simp: handleGenerateVideo_def selection_paired_def)
next
  case (Some fl)
  with assms(2) obtain outcome where "s' = generate_finish outcome (generate_start s)"
    by (auto simp: handleGenerateVideo_def split: option.splits)
  with assms(1) show ?thesis
    by (simp add: generate_finish_paired generate_start_paired)
qed

lemma resetState_paired: "selection_paired (resetState s)"
  by (simp add: selection_paired_def resetState_fields)

lemma tick_paired: "selection_paired s \<Longrightarrow> selection_paired (tick s)"
  by (simp add: selection_paired_def tick_def)

lemma step_paired:
  assumes "selection_paired s" and "step e a (s, w) = Some (s', w')"
  shows "selection_paired s'"
proof (cases a)
  case (SelectFile fl)
  with assms handleFileChange_paired [of s e fl w] show ?thesis by auto
next
  case Generate
  with assms show ?thesis by (auto intro: handleGenerateVideo_paired)
next
  case Reset
  with assms show ?thesis by (auto simp: resetState_paired)
next
  case Tick
  with assms show ?thesis by (auto intro: tick_paired)
qed

lemma run_paired:
  "selection_paired (fst c) \<Longrightarrow> run e as c = Some c' \<Longrightarrow> selection_paired (fst c')"
proof (induction as arbitrary: c)
  case Nil
  then show ?case by simp
next
  case (Cons a as)
  obtain s w where c: "c = (s, w)" by (cases c)
  from Cons.prems(2) obtain c1 where st: "step e a c = Some c1" and r: "run e as c1 = Some c'"
    by (auto split: option.splits)
  obtain s1 w1 where c1: "c1 = (s1, w1)" by (cases c1)
  from Cons.prems(1) st c c1 have "selection_paired (fst c1)"
    using step_paired [of s e a w s1 w1] by simp
  from Cons.IH [OF this r] show ?case .
qed

subsection \<open>States in which the file input is mounted\<close>






subsection \<open>The stored loading message outside the loading phase\<close>

text \<open>
  \<open>resetState\<close> does not write the stored message. The facts below show that the stored
  value has no effect while the component is not loading: it is not rendered, the
  interval does not run, and line 90 overwrites it when a generation starts.
\<close>

lemma resetState_keeps_message: "loadingMessage (resetState s) = loadingMessage s"
  by (simp add: resetState_fields)






section \<open>Polling until the operation is done\<close>

text \<open>
  Claim C1 as stated does not hold. The provider \<open>two_polls\<close> answers the start call with
  an operation that is not done, the first poll with one that is not done, and the second
  poll with a finished one that carries a result URI: \<open>done: false\<close> twice and then
  \<open>done: true\<close>. The handler ends showing the video, after two polls, not three.
\<close>

theorem three_polls_claimed_counterexample:
  "generateVideos two_polls (make_request png_part) = Inr pending
   \<and> \<not> is_done pending
   \<and> getVideosOperation two_polls 0 pending = Inr pending
   \<and> getVideosOperation two_polls 1 pending = Inr (finished (Some video_link))
   \<and> is_done (finished (Some video_link))
   \<and> result_uri (finished (Some video_link)) = Some video_link
   \<and> map_option (polls \<circ> trace \<circ> snd)
        (handleGenerateVideo two_polls (fst selected) (snd selected)) = Some [pending, pending]
   \<and> map_option (length \<circ> polls \<circ> trace \<circ> snd)
        (handleGenerateVideo two_polls (fst selected) (snd selected)) \<noteq> Some 3
   \<and> map_option (render \<circ> fst)
        (handleGenerateVideo two_polls (fst selected) (snd selected))
       = Some (VideoPlayer (js ''blob:xx''))"
  by code_simp

text \<open>
  Claim C1, amended. A generation with a selected image, against a provider whose start
  call and first poll answer with operations that are not done and whose second poll
  answers with a done operation carrying a non-empty result URI, and whose asset can be
  fetched: the handler makes exactly two polls, one for each answer that is not done,
  each after a wait of 10000 ms and each with the operation last received; it then makes
  one fetch of the URI with the key appended, and ends showing the video under the
  object URL created for the fetched blob, with no error and the loading flag off.
\<close>

theorem two_polls_then_ready:
  assumes "imageFile s = Some f"
    and "newGoogleGenAI e = None"
    and "fileToGenerativePart e f = Some imagePart"
    and "generateVideos e (make_request imagePart) = Inr op0" and "\<not> is_done op0"
    and "getVideosOperation e 0 op0 = Inr op1" and "\<not> is_done op1"
    and "getVideosOperation e 1 op1 = Inr op2" and "is_done op2"
    and "result_uri op2 = Some link" and "link \<noteq> []"
    and "fetch e (link @ js ''&key='' @ template (API_KEY e)) = Inr videoResponse"
    and "ok videoResponse" and "body videoResponse = Inr videoBlob"
  shows "handleGenerateVideo e s w =
           Some ((generate_start s)
                   \<lparr>videoUrl := Some (js ''blob:'' @ blobId e (length (objectURLs w))),
                    isLoading := False\<rparr>,
                 w\<lparr>trace := trace w @
                      [GenerateVideos (make_request imagePart),
                       SetTimeout 10000, GetVideosOperation op0,
                       SetTimeout 10000, GetVideosOperation op1,
                       Fetch (link @ js ''&key='' @ template (API_KEY e))],
                   objectURLs := objectURLs w @
                      [(js ''blob:'' @ blobId e (length (objectURLs w)),
                        BlobObject videoBlob)]\<rparr>)
     \<and> polls [GenerateVideos (make_request imagePart),
                SetTimeout 10000, GetVideosOperation op0,
                SetTimeout 10000, GetVideosOperation op1,
                Fetch (link @ js ''&key='' @ template (API_KEY e))] = [op0, op1]
     \<and> render ((generate_start s)
                   \<lparr>videoUrl := Some (js ''blob:'' @ blobId e (length (objectURLs w))),
                    isLoading := False\<rparr>)
         = VideoPlayer (js ''blob:'' @ blobId e (length (objectURLs w)))
     \<and> error ((generate_start s)
                   \<lparr>videoUrl := Some (js ''blob:'' @ blobId e (length (objectURLs w))),
                    isLoading := False\<rparr>) = None"
proof -
  let ?w0 = "emit [GenerateVideos (make_request imagePart)] w"
  let ?w1 = "emit [SetTimeout 10000, GetVideosOperation op0] ?w0"
  let ?w2 = "emit [SetTimeout 10000, GetVideosOperation op1] ?w1"
  have "poll e 0 op0 ?w0 = poll e (Suc 0) op1 ?w1"
    using assms(5,6) by (rule poll_next)
  also have "\<dots> = poll e (Suc (Suc 0)) op2 ?w2"
    using assms(7,8) by (intro poll_next) simp_all
  also have "\<dots> = Some (Inr op2, ?w2)"
    using assms(9) by (rule poll_done)
  finally have p: "poll e 0 op0 ?w0 = Some (Inr op2, ?w2)" .
  from assms(2,3,4) p have sp: "start_and_poll e f w = Some (Inr op2, ?w2)"
    by (simp add: start_and_poll_def)
  from assms(10-14)
  have dl: "download e op2 ?w2 =
      (Inr (js ''blob:'' @ blobId e (length (objectURLs w))),
        w\<lparr>trace := trace w @
                      [GenerateVideos (make_request imagePart),
                       SetTimeout 10000, GetVideosOperation op0,
                       SetTimeout 10000, GetVideosOperation op1,
                       Fetch (link @ js ''&key='' @ template (API_KEY e))],
                   objectURLs := objectURLs w @
                      [(js ''blob:'' @ blobId e (length (objectURLs w)),
                        BlobObject videoBlob)]\<rparr>)"
    by (simp add: download_def emit_def createObjectURL_def Let_def)
  from assms(1) sp dl
  have h: "handleGenerateVideo e s w =
           Some ((generate_start s)
                   \<lparr>videoUrl := Some (js ''blob:'' @ blobId e (length (objectURLs w))),
                    isLoading := False\<rparr>,
                 w\<lparr>trace := trace w @
                      [GenerateVideos (make_request imagePart),
                       SetTimeout 10000, GetVideosOperation op0,
                       SetTimeout 10000, GetVideosOperation op1,
                       Fetch (link @ js ''&key='' @ template (API_KEY e))],
                   objectURLs := objectURLs w @
                      [(js ''blob:'' @ blobId e (length (objectURLs w)),
                        BlobObject videoBlob)]\<rparr>)"
    by (simp add: handleGenerateVideo_def attempt_def generate_finish_def)
  have b: "js ''blob:'' \<noteq> []" by (simp add: js_def)
  from h b show ?thesis
    by (simp add: render_def generate_start_def)
qed

theorem two_polls_then_ready_witness:
  "imageFile (fst selected) = Some png_file
   \<and> generateVideos two_polls (make_request png_part) = Inr pending
   \<and> \<not> is_done pending
   \<and> getVideosOperation two_polls 0 pending = Inr pending
   \<and> getVideosOperation two_polls 1 pending = Inr (finished (Some video_link))
   \<and> is_done (finished (Some video_link))
   \<and> map_option (videoUrl \<circ> fst) (handleGenerateVideo two_polls (fst selected) (snd selected))
       = Some (Some (js ''blob:xx''))
   \<and> map_option (render \<circ> fst) (handleGenerateVideo two_polls (fst selected) (snd selected))
       = Some (VideoPlayer (js ''blob:xx''))
   \<and> map_option (polls \<circ> trace \<circ> snd)
        (handleGenerateVideo two_polls (fst selected) (snd selected))
       = Some [pending, pending]"
proof -
  have h2: "newGoogleGenAI two_polls = None"
    by (simp add: two_polls_def scripted_def)
  have h3: "fileToGenerativePart two_polls png_file = Some png_part"
    by code_simp
  have h4: "generateVideos two_polls (make_request png_part) = Inr pending"
    by (simp add: two_polls_def scripted_def)
  have h5: "\<not> is_done pending" by (simp add: pending_def)
  have h6: "getVideosOperation two_polls 0 pending = Inr pending"
    and h8: "getVideosOperation two_polls 1 pending = Inr (finished (Some video_link))"
    by (simp_all add: two_polls_def scripted_def)
  have h9: "is_done (finished (Some video_link))" by (simp add: finished_def)
  have h10: "result_uri (finished (Some video_link)) = Some video_link"
    by (simp add: finished_def)
  have h11: "video_link \<noteq> []" by (simp add: video_link_def js_def)
  have h12: "fetch two_polls (video_link @ js ''&key='' @ template (API_KEY two_polls))
               = Inr response_ok"
    by (simp add: two_polls_def scripted_def fetched_ok_def response_ok_def)
  have h13: "ok response_ok" and h14: "body response_ok = Inr [9, 9]"
    by (simp_all add: response_ok_def)
  have u: "js ''blob:'' @ blobId two_polls (length (objectURLs (snd selected))) = js ''blob:xx''"
    by code_simp
  have t: "polls (trace (snd selected)) = []"
    by code_simp
  note r = two_polls_then_ready
    [OF selected_file h2 h3 h4 h5 h6 h5 h8 h9 h10 h11 h12 h13 h14, of "snd selected"]
  from r u t have
    "map_option (videoUrl \<circ> fst) (handleGenerateVideo two_polls (fst selected) (snd selected))
       = Some (Some (js ''blob:xx''))"
    "map_option (render \<circ> fst) (handleGenerateVideo two_polls (fst selected) (snd selected))
       = Some (VideoPlayer (js ''blob:xx''))"
    "map_option (polls \<circ> trace \<circ> snd)
        (handleGenerateVideo two_polls (fst selected) (snd selected))
       = Some [pending, pending]"
    by (simp_all add: polls_append)
  with selected_file h4 h5 h6 h8 h9 show ?thesis by blast
qed

section \<open>Choosing a file\<close>



section \<open>Resetting\<close>



section \<open>Failed attempts\<close>

text \<open>
  Claim C4. When the body of the attempt throws, the handler ends with the loading flag
  off and an error message chosen from the thrown value's message, whatever happened to
  the state in between: the credential-guidance message when the message contains
  \<open>Requested entity was not found.\<close>; the message itself when it is non-empty and does
  not contain that text; the generic message when there is no message or it is empty
  (an \<open>Error\<close> constructed without a message has the empty message).
\<close>

theorem surfaced_failure_message:
  assumes "imageFile s = Some f" and "attempt e f w = Some (Inl err, w')"
  shows "handleGenerateVideo e s w = Some (generate_finish (Inl err) (generate_start s), w')
     \<and> (\<forall>s1. \<not> isLoading (generate_finish (Inl err) s1)
             \<and> videoUrl (generate_finish (Inl err) s1) = videoUrl s1
             \<and> (\<forall>m. message err = Some m \<and> sublist entityNotFound m \<longrightarrow>
                    error (generate_finish (Inl err) s1) = Some invalidKeyMessage)
             \<and> (\<forall>m. message err = Some m \<and> m \<noteq> [] \<and> \<not> sublist entityNotFound m \<longrightarrow>
                    error (generate_finish (Inl err) s1) = Some m)
             \<and> (message err = None \<or> message err = Some [] \<longrightarrow>
                    error (generate_finish (Inl err) s1) = Some unknownErrorMessage))"
proof -
  have "entityNotFound \<noteq> []" by (simp add: entityNotFound_def js_def)
  then have ne: "\<not> sublist entityNotFound []" by simp
  from assms
  have "handleGenerateVideo e s w = Some (generate_finish (Inl err) (generate_start s), w')"
    by (simp add: handleGenerateVideo_def)
  then show ?thesis
    using ne by (auto simp: generate_finish_def errorMessage_cases)
qed

theorem surfaced_failure_message_witness:
  "imageFile (fst selected) = Some png_file
   \<and> map_option fst (attempt (start_fails not_found_error) png_file (snd selected)) =
       Some (Inl not_found_error)
   \<and> sublist entityNotFound (js ''404 Requested entity was not found. NOT_FOUND'')
   \<and> map_option (error \<circ> fst)
        (handleGenerateVideo (start_fails not_found_error) (fst selected) (snd selected)) =
       Some (Some invalidKeyMessage)
   \<and> map_option fst (attempt (poll_fails quota_error) png_file (snd selected)) =
       Some (Inl quota_error)
   \<and> map_option (error \<circ> fst)
        (handleGenerateVideo (poll_fails quota_error) (fst selected) (snd selected)) =
       Some (Some (js ''Quota exceeded.''))
   \<and> map_option fst (attempt (start_fails (Error None)) png_file (snd selected)) =
       Some (Inl (Error None))
   \<and> map_option (error \<circ> fst)
        (handleGenerateVideo (start_fails (Error None)) (fst selected) (snd selected)) =
       Some (Some unknownErrorMessage)"
proof -
  have a1: "map_option fst (attempt (start_fails not_found_error) png_file (snd selected)) =
       Some (Inl not_found_error)"
    by code_simp
  then obtain w1 where
    b1: "attempt (start_fails not_found_error) png_file (snd selected) =
          Some (Inl not_found_error, w1)"
    by auto
  have "js_includes (js ''404 Requested entity was not found. NOT_FOUND'') entityNotFound"
    by code_simp
  then have c1: "sublist entityNotFound (js ''404 Requested entity was not found. NOT_FOUND'')"
    by (simp add: js_includes_sublist)
  have m1: "message not_found_error =
             Some (js ''404 Requested entity was not found. NOT_FOUND'')"
    by (simp add: not_found_error_def)
  from surfaced_failure_message [OF selected_file b1] m1 c1
  have r1: "map_option (error \<circ> fst)
        (handleGenerateVideo (start_fails not_found_error) (fst selected) (snd selected)) =
       Some (Some invalidKeyMessage)"
    by simp
  have a2: "map_option fst (attempt (poll_fails quota_error) png_file (snd selected)) =
       Some (Inl quota_error)"
    by code_simp
  then obtain w2 where
    b2: "attempt (poll_fails quota_error) png_file (snd selected) = Some (Inl quota_error, w2)"
    by auto
  have "\<not> js_includes (js ''Quota exceeded.'') entityNotFound"
    by code_simp
  then have c2: "\<not> sublist entityNotFound (js ''Quota exceeded.'')"
    by (simp add: js_includes_sublist)
  have m2: "message quota_error = Some (js ''Quota exceeded.'')"
    and n2: "js ''Quota exceeded.'' \<noteq> []"
    by (simp_all add: quota_error_def js_def)
  from surfaced_failure_message [OF selected_file b2] m2 n2 c2
  have r2: "map_option (error \<circ> fst)
        (handleGenerateVideo (poll_fails quota_error) (fst selected) (snd selected)) =
       Some (Some (js ''Quota exceeded.''))"
    by simp
  have a3: "map_option fst (attempt (start_fails (Error None)) png_file (snd selected)) =
       Some (Inl (Error None))"
    by code_simp
  then obtain w3 where
    b3: "attempt (start_fails (Error None)) png_file (snd selected) = Some (Inl (Error None), w3)"
    by auto
  from surfaced_failure_message [OF selected_file b3]
  have r3: "map_option (error \<circ> fst)
        (handleGenerateVideo (start_fails (Error None)) (fst selected) (snd selected)) =
       Some (Some unknownErrorMessage)"
    by simp
  from selected_file a1 c1 r1 a2 r2 a3 r3 show ?thesis by blast
qed

text \<open>
  Claim C5. When the operation that leaves the polling loop (it is done) has no result
  URI or an empty one, nothing is fetched and no object URL is created; the handler
  ends with the fixed unknown-result message as error, the loading flag off and no
  video reference, so the upload form with the error banner is shown, not the video.
\<close>

theorem finished_without_uri_fails:
  assumes "imageFile s = Some f"
    and "start_and_poll e f w = Some (Inr operation, w')"
    and "\<not> truthy (result_uri operation)"
  shows "is_done operation
     \<and> download e operation w' = (Inl (Error (Some unknownResultMessage)), w')
     \<and> handleGenerateVideo e s w =
         Some ((generate_start s)\<lparr>error := Some unknownResultMessage, isLoading := False\<rparr>, w')
     \<and> videoUrl ((generate_start s)\<lparr>error := Some unknownResultMessage, isLoading := False\<rparr>)
         = None
     \<and> render ((generate_start s)\<lparr>error := Some unknownResultMessage, isLoading := False\<rparr>)
         = UploadForm (Some unknownResultMessage)
             (if truthy (imagePreview s) then imagePreview s else None)"
proof -
  from assms(2) have d: "is_done operation" by (rule start_and_poll_done)
  from assms(3)
  have dl: "download e operation w' = (Inl (Error (Some unknownResultMessage)), w')"
    by (simp add: download_def)
  have ne: "unknownResultMessage \<noteq> []" by (simp add: unknownResultMessage_def js_def)
  then have em: "errorMessage (Error (Some unknownResultMessage)) = unknownResultMessage"
    by (simp add: errorMessage_cases unknownResultMessage_plain)
  from assms(1,2) dl em
  have h: "handleGenerateVideo e s w =
         Some ((generate_start s)\<lparr>error := Some unknownResultMessage, isLoading := False\<rparr>, w')"
    by (simp add: handleGenerateVideo_def attempt_def generate_finish_def)
  from d dl h ne show ?thesis
    by (simp add: generate_start_def render_def)
qed

theorem finished_without_uri_fails_witness:
  "imageFile (fst selected) = Some png_file
   \<and> map_option fst (start_and_poll no_uri png_file (snd selected)) = Some (Inr (finished None))
   \<and> \<not> truthy (result_uri (finished None))
   \<and> map_option (error \<circ> fst) (handleGenerateVideo no_uri (fst selected) (snd selected)) =
       Some (Some unknownResultMessage)
   \<and> map_option (videoUrl \<circ> fst) (handleGenerateVideo no_uri (fst selected) (snd selected)) =
       Some None"
proof -
  have a: "map_option fst (start_and_poll no_uri png_file (snd selected)) =
             Some (Inr (finished None))"
    by code_simp
  then obtain w' where
    b: "start_and_poll no_uri png_file (snd selected) = Some (Inr (finished None), w')"
    by auto
  have c: "\<not> truthy (result_uri (finished None))"
    by (simp add: finished_def)
  from finished_without_uri_fails [OF selected_file b c] selected_file a c
  show ?thesis by simp
qed

section \<open>Generating without an image\<close>

text \<open>
  Claim C6. When no image file is stored, the handler returns at once: the error becomes
  the fixed, non-empty no-image message, every other field of the state is unchanged,
  and the world is unchanged, so no start call, poll, wait or fetch is issued.
\<close>

theorem generate_without_image:
  assumes "imageFile s = None"
  shows "handleGenerateVideo e s w = Some (s\<lparr>error := Some noImageSelectedMessage\<rparr>, w)
     \<and> truthy (Some noImageSelectedMessage)"
  using assms by (simp add: handleGenerateVideo_def noImageSelectedMessage_def js_def)

theorem generate_without_image_witness:
  "imageFile initial = None
   \<and> handleGenerateVideo three_polls initial initial_world =
       Some (initial\<lparr>error := Some noImageSelectedMessage\<rparr>, initial_world)
   \<and> trace initial_world = []"
proof -
  have h: "imageFile initial = None" by (simp add: initial_def)
  from h generate_without_image [OF h] show ?thesis by (simp add: initial_world_def)
qed

section \<open>Selecting and resetting\<close>

text \<open>
  Claim C7 as stated does not hold. After the PNG file is chosen in the initial state and
  the state is reset, the component state is the initial one again, but the object URL
  created for the preview is still in the browser's store: the outside is not as it was.
\<close>

theorem select_reset_leaks_counterexample:
  "startsWith (type png_file) (js ''image/'')
   \<and> run three_polls [SelectFile (Some png_file), Reset] (initial, initial_world) =
       Some (initial, \<lparr>trace = [], objectURLs = [(js ''blob:x'', FileObject png_file)]\<rparr>)
   \<and> run three_polls [SelectFile (Some png_file), Reset] (initial, initial_world) \<noteq>
       Some (initial, initial_world)"
  by code_simp

text \<open>
  Claim C7, amended. For every file whose type starts with \<open>image/\<close>, choosing it in the
  initial state and then resetting gives the initial component state again; from any
  state the two steps end with no file, no preview and no error; and resetting twice is
  the same as resetting once. The object URL created for the preview stays registered.
\<close>

theorem select_reset_empties_selection:
  assumes "startsWith (type f) (js ''image/'')"
  shows "run e [SelectFile (Some f), Reset] (initial, w) =
           Some (initial,
                 w\<lparr>objectURLs := objectURLs w
                      @ [(js ''blob:'' @ blobId e (length (objectURLs w)), FileObject f)]\<rparr>)
     \<and> map_option ((\<lambda>s'. (imageFile s', imagePreview s', error s')) \<circ> fst)
          (run e [SelectFile (Some f), Reset] (s, w)) = Some (None, None, None)
     \<and> resetState (resetState s) = resetState s"
  using assms
  by (simp add: resetState_idem)
     (simp add: handleFileChange_def createObjectURL_def resetState_fields initial_def Let_def)

theorem select_reset_empties_selection_witness:
  "startsWith (type png_file) (js ''image/'')
   \<and> run three_polls [SelectFile (Some png_file), Reset] (initial, initial_world) =
       Some (initial,
             initial_world\<lparr>objectURLs := objectURLs initial_world
                @ [(js ''blob:'' @ blobId three_polls (length (objectURLs initial_world)),
                    FileObject png_file)]\<rparr>)"
proof -
  have h: "startsWith (type png_file) (js ''image/'')"
    by (simp add: startsWith_def png_file_def js_def)
  from h select_reset_empties_selection [OF h] show ?thesis by simp
qed
section \<open>The rotating loading message\<close>

lemma loadingMessages_length: "length loadingMessages = 6"
  by (simp add: loadingMessages_def)

lemma nextLoadingMessage_table:
  "map nextLoadingMessage (map (at loadingMessages) [0, 1, 2, 3, 4, 5]) =
   map (at loadingMessages) [1, 2, 3, 4, 5, 0]"
  by code_simp

lemma nextLoadingMessage_entry:
  assumes "i < length loadingMessages"
  shows "nextLoadingMessage (at loadingMessages (int i)) =
         at loadingMessages (int (Suc i mod length loadingMessages))"
proof -
  from assms have "i \<in> {0, 1, 2, 3, 4, 5}"
    by (auto simp: loadingMessages_length)
  then show ?thesis
    using nextLoadingMessage_table by (auto simp: loadingMessages_length)
qed

lemma nextLoadingMessage_funpow:
  assumes "i < length loadingMessages"
  shows "(nextLoadingMessage ^^ k) (at loadingMessages (int i)) =
         at loadingMessages (int ((i + k) mod length loadingMessages))"
proof (induction k)
  case 0
  from assms show ?case by simp
next
  case (Suc k)
  have "(i + k) mod length loadingMessages < length loadingMessages"
    by (simp add: loadingMessages_length)
  from nextLoadingMessage_entry [OF this] Suc show ?case
    by (simp add: mod_Suc_eq)
qed

lemma tick_funpow:
  "isLoading s \<Longrightarrow>
   (tick ^^ k) s = s\<lparr>loadingMessage := (nextLoadingMessage ^^ k) (loadingMessage s)\<rparr>"
  by (induction k) (simp_all add: tick_def)

text \<open>
  Claim C8. Each tick of the interval moves the loading message from an entry of the
  fixed list to the next one, and from the last entry to the first; the entries are
  pairwise different, the message starts at the first entry, and as many ticks as the
  list has entries bring a loading component back to the state it was in.
\<close>

theorem loading_message_rotation:
  "(i < length loadingMessages \<longrightarrow>
      nextLoadingMessage (at loadingMessages (int i)) =
        at loadingMessages (int (Suc i mod length loadingMessages))
      \<and> at loadingMessages (int i) \<noteq> None)
   \<and> (isLoading s \<longrightarrow> loadingMessage (tick s) = nextLoadingMessage (loadingMessage s))
   \<and> (isLoading s \<and> i < length loadingMessages
          \<and> loadingMessage s = at loadingMessages (int i) \<longrightarrow>
          (tick ^^ length loadingMessages) s = s)
   \<and> loadingMessage initial = at loadingMessages 0
   \<and> loadingMessage (generate_start s) = at loadingMessages 0
   \<and> distinct loadingMessages"
proof -
  have order: "i < length loadingMessages \<longrightarrow>
      nextLoadingMessage (at loadingMessages (int i)) =
        at loadingMessages (int (Suc i mod length loadingMessages))
      \<and> at loadingMessages (int i) \<noteq> None"
    using nextLoadingMessage_entry [of i] by (simp add: at_def)
  have one: "isLoading s \<longrightarrow> loadingMessage (tick s) = nextLoadingMessage (loadingMessage s)"
    by (simp add: tick_def)
  have cycle: "isLoading s \<and> i < length loadingMessages
          \<and> loadingMessage s = at loadingMessages (int i) \<longrightarrow>
          (tick ^^ length loadingMessages) s = s"
  proof
    assume a: "isLoading s \<and> i < length loadingMessages
          \<and> loadingMessage s = at loadingMessages (int i)"
    then have "(nextLoadingMessage ^^ length loadingMessages) (loadingMessage s) = loadingMessage s"
      using nextLoadingMessage_funpow [of i "length loadingMessages"] by simp
    with a show "(tick ^^ length loadingMessages) s = s"
      by (simp add: tick_funpow)
  qed
  have start: "loadingMessage initial = at loadingMessages 0"
    "loadingMessage (generate_start s) = at loadingMessages 0"
    by (simp_all add: initial_def generate_start_def)
  have "distinct loadingMessages" by code_simp
  with order one cycle start show ?thesis by blast
qed


theorem loading_message_rotation_witness:
  "(nextLoadingMessage (at loadingMessages 5) = at loadingMessages 0
    \<and> nextLoadingMessage (at loadingMessages 0) = at loadingMessages 1)
   \<and> isLoading (generate_start (fst selected))
   \<and> loadingMessage (tick (generate_start (fst selected))) = at loadingMessages 1
   \<and> (tick ^^ 6) (generate_start (fst selected)) = generate_start (fst selected)"
proof -
  have l: "length loadingMessages = 6" by (rule loadingMessages_length)
  have ld: "isLoading (generate_start (fst selected))"
    and lm: "loadingMessage (generate_start (fst selected)) = at loadingMessages 0"
    by (simp_all add: generate_start_def)
  from loading_message_rotation [of 5 "generate_start (fst selected)"] l
  have a: "nextLoadingMessage (at loadingMessages 5) = at loadingMessages 0" by simp
  from loading_message_rotation [of 0 "generate_start (fst selected)"] l ld lm
  have b: "nextLoadingMessage (at loadingMessages 0) = at loadingMessages 1"
    and c: "loadingMessage (tick (generate_start (fst selected))) = at loadingMessages 1"
    and d: "(tick ^^ 6) (generate_start (fst selected)) = generate_start (fst selected)"
    by simp_all
  from a b c d ld show ?thesis by blast
qed

section \<open>Invariants\<close>

text \<open>
  Claim C9. The stored image file is present exactly when the stored preview is: this
  holds in the initial state and is kept by choosing a file (valid, invalid or none), by
  a generation (as a whole, and by its start and its end taken alone), by a reset and by
  a tick, hence in every state reached from the initial one.
\<close>

theorem selection_and_preview_paired:
  "selection_paired initial
   \<and> (selection_paired s \<longrightarrow> selection_paired (fst (handleFileChange e fl s w)))
   \<and> (selection_paired s \<and> handleGenerateVideo e s w = Some (s', w') \<longrightarrow> selection_paired s')
   \<and> selection_paired (generate_start s) = selection_paired s
   \<and> selection_paired (generate_finish outcome s) = selection_paired s
   \<and> selection_paired (resetState s)
   \<and> (selection_paired s \<longrightarrow> selection_paired (tick s))
   \<and> (run e as (initial, w) = Some (s', w') \<longrightarrow> selection_paired s')"
proof -
  have i: "selection_paired initial" by (simp add: selection_paired_def initial_def)
  have u: "run e as (initial, w) = Some (s', w') \<longrightarrow> selection_paired s'"
    using run_paired [of "(initial, w)" e as "(s', w')"] i by simp
  from i u resetState_paired [of s] tick_paired [of s]
    generate_start_paired [of s] generate_finish_paired [of outcome s]
    handleFileChange_paired [of s e fl w] handleGenerateVideo_paired [of s e w s' w']
  show ?thesis by blast
qed

theorem selection_and_preview_paired_witness:
  "selection_paired (fst selected)
   \<and> handleGenerateVideo three_polls (fst selected) (snd selected) \<noteq> None
   \<and> map_option (selection_paired \<circ> fst)
        (handleGenerateVideo three_polls (fst selected) (snd selected)) = Some True
   \<and> selection_paired
        (fst (handleFileChange three_polls (Some text_file) (fst selected) (snd selected)))
   \<and> selection_paired (tick (fst selected))"
proof -
  have p: "selection_paired (fst selected)"
    by (simp add: selected_def)
       (rule selection_and_preview_paired [THEN conjunct2, THEN conjunct1, rule_format],
        rule selection_and_preview_paired [THEN conjunct1])
  have g: "handleGenerateVideo three_polls (fst selected) (snd selected) \<noteq> None"
    by code_simp
  then obtain s' w' where
    e: "handleGenerateVideo three_polls (fst selected) (snd selected) = Some (s', w')"
    by auto
  from p g e selection_and_preview_paired
    [of "fst selected" three_polls "Some text_file" "snd selected" s' w' _ "[]"]
  show ?thesis by simp
qed

text \<open>
  Claim C10. A generation with a selected image ends exactly when its start-and-poll
  part ends, and whenever it ends the loading flag is off; the updates made at the end
  of an attempt turn the flag off for every outcome (a video, a finished operation
  without URI, a failed download, a failed provider call) and from every state.
\<close>

theorem loading_flag_cleared:
  assumes "imageFile s = Some f"
  shows "(handleGenerateVideo e s w = None) = (start_and_poll e f w = None)
     \<and> (\<forall>s' w'. handleGenerateVideo e s w = Some (s', w') \<longrightarrow> \<not> isLoading s')
     \<and> (\<forall>outcome s1. \<not> isLoading (generate_finish outcome s1))"
proof -
  have fin: "\<not> isLoading (generate_finish outcome s1)" for outcome s1
    by (cases outcome) (simp_all add: generate_finish_def)
  have "(attempt e f w = None) = (start_and_poll e f w = None)"
    by (auto simp: attempt_def split: option.splits sum.splits)
  with assms have a: "(handleGenerateVideo e s w = None) = (start_and_poll e f w = None)"
    by (auto simp: handleGenerateVideo_def split: option.splits)
  from assms have "\<forall>s' w'. handleGenerateVideo e s w = Some (s', w') \<longrightarrow> \<not> isLoading s'"
    by (auto simp: handleGenerateVideo_def fin split: option.splits)
  with a fin show ?thesis by blast
qed

theorem loading_flag_cleared_witness:
  "imageFile (fst selected) = Some png_file
   \<and> map_option (isLoading \<circ> fst)
        (handleGenerateVideo three_polls (fst selected) (snd selected)) = Some False
   \<and> map_option (isLoading \<circ> fst)
        (handleGenerateVideo no_uri (fst selected) (snd selected)) = Some False
   \<and> map_option (isLoading \<circ> fst)
        (handleGenerateVideo download_forbidden (fst selected) (snd selected)) = Some False
   \<and> map_option (isLoading \<circ> fst)
        (handleGenerateVideo (poll_fails quota_error) (fst selected) (snd selected)) = Some False"
proof -
  have ends: "start_and_poll three_polls png_file (snd selected) \<noteq> None"
    "start_and_poll no_uri png_file (snd selected) \<noteq> None"
    "start_and_poll download_forbidden png_file (snd selected) \<noteq> None"
    "start_and_poll (poll_fails quota_error) png_file (snd selected) \<noteq> None"
    by code_simp+
  have "map_option (isLoading \<circ> fst) (handleGenerateVideo e (fst selected) (snd selected))
          = Some False"
    if "start_and_poll e png_file (snd selected) \<noteq> None" for e
    using loading_flag_cleared [OF selected_file, of e "snd selected"] that by auto
  with ends selected_file show ?thesis by blast
qed

end
